theory Spec2Isabelle
  imports Complex_Main
begin

section \<open>JavaScript numbers\<close>

text \<open>
  A TypeScript \<open>number\<close> is modelled by \<open>jsnum\<close>: the special values of IEEE 754
  (\<open>NaN\<close>, the two infinities, negative zero) are kept, since the program's
  truthiness tests, divisions by zero and loop bounds depend on them; a finite value is
  an exact real (\<open>Fin 0\<close> is positive zero). Rounding to 53 bits, overflow and underflow
  of finite values are not modelled.
\<close>

datatype jsnum = NaN | PInf | NInf | NZero | Fin real

definition is_zero :: "jsnum \<Rightarrow> bool" where
  "is_zero x = (x = NZero \<or> x = Fin 0)"

definition is_inf :: "jsnum \<Rightarrow> bool" where
  "is_inf x = (x = PInf \<or> x = NInf)"

definition sign_neg :: "jsnum \<Rightarrow> bool" where
  "sign_neg x = (case x of NInf \<Rightarrow> True | NZero \<Rightarrow> True | Fin r \<Rightarrow> r < 0 | _ \<Rightarrow> False)"

definition rv :: "jsnum \<Rightarrow> real" where
  "rv x = (case x of Fin r \<Rightarrow> r | _ \<Rightarrow> 0)"

definition mk_zero :: "bool \<Rightarrow> jsnum" where
  "mk_zero neg = (if neg then NZero else Fin 0)"

definition mk_inf :: "bool \<Rightarrow> jsnum" where
  "mk_inf neg = (if neg then NInf else PInf)"

definition mk_fin :: "bool \<Rightarrow> real \<Rightarrow> jsnum" where
  "mk_fin neg r = (if r = 0 then mk_zero neg else Fin r)"

text \<open>\<open>a * b\<close>\<close>
definition js_mul :: "jsnum \<Rightarrow> jsnum \<Rightarrow> jsnum" where
  "js_mul a b =
     (if a = NaN \<or> b = NaN then NaN
      else if (is_inf a \<and> is_zero b) \<or> (is_zero a \<and> is_inf b) then NaN
      else if is_inf a \<or> is_inf b then mk_inf (sign_neg a \<noteq> sign_neg b)
      else mk_fin (sign_neg a \<noteq> sign_neg b) (rv a * rv b))"

text \<open>\<open>a / b\<close>\<close>
definition js_div :: "jsnum \<Rightarrow> jsnum \<Rightarrow> jsnum" where
  "js_div a b =
     (if a = NaN \<or> b = NaN then NaN
      else if (is_inf a \<and> is_inf b) \<or> (is_zero a \<and> is_zero b) then NaN
      else if is_inf a \<or> is_zero b then mk_inf (sign_neg a \<noteq> sign_neg b)
      else if is_inf b then mk_zero (sign_neg a \<noteq> sign_neg b)
      else mk_fin (sign_neg a \<noteq> sign_neg b) (rv a / rv b))"

text \<open>\<open>-a\<close>\<close>
definition js_neg :: "jsnum \<Rightarrow> jsnum" where
  "js_neg a = (case a of NaN \<Rightarrow> NaN | PInf \<Rightarrow> NInf | NInf \<Rightarrow> PInf | NZero \<Rightarrow> Fin 0
                | Fin r \<Rightarrow> (if r = 0 then NZero else Fin (- r)))"

text \<open>\<open>a + b\<close>: an exact sum of zero is positive zero unless both operands are negative zero.\<close>
definition js_add :: "jsnum \<Rightarrow> jsnum \<Rightarrow> jsnum" where
  "js_add a b =
     (if a = NaN \<or> b = NaN then NaN
      else if is_inf a \<and> is_inf b then (if a = b then a else NaN)
      else if is_inf a then a
      else if is_inf b then b
      else if a = NZero \<and> b = NZero then NZero
      else Fin (rv a + rv b))"

text \<open>\<open>a - b\<close>\<close>
definition js_sub :: "jsnum \<Rightarrow> jsnum \<Rightarrow> jsnum" where
  "js_sub a b = js_add a (js_neg b)"

text \<open>\<open>a < b\<close>: false whenever an operand is \<open>NaN\<close>; the two zeros compare equal.\<close>
definition js_lt :: "jsnum \<Rightarrow> jsnum \<Rightarrow> bool" where
  "js_lt a b =
     (if a = NaN \<or> b = NaN then False
      else if a = PInf \<or> b = NInf then False
      else if a = NInf \<or> b = PInf then True
      else rv a < rv b)"

text \<open>\<open>a === b\<close> on numbers\<close>
definition js_eq :: "jsnum \<Rightarrow> jsnum \<Rightarrow> bool" where
  "js_eq a b = (a \<noteq> NaN \<and> b \<noteq> NaN \<and> (a = b \<or> (is_zero a \<and> is_zero b)))"

text \<open>\<open>Math.ceil\<close>: a result of zero keeps the sign of the argument.\<close>
definition js_ceil :: "jsnum \<Rightarrow> jsnum" where
  "js_ceil a = (case a of Fin r \<Rightarrow> mk_fin (r < 0) (of_int \<lceil>r\<rceil>) | _ \<Rightarrow> a)"

text \<open>\<open>Math.round\<close>: the nearest integer, a tie going up; a zero keeps the argument's sign.\<close>
definition js_round :: "jsnum \<Rightarrow> jsnum" where
  "js_round a = (case a of Fin r \<Rightarrow> mk_fin (r < 0) (of_int \<lfloor>r + 1 / 2\<rfloor>) | _ \<Rightarrow> a)"

text \<open>Truthiness of a number: every number but \<open>NaN\<close> and the two zeros.\<close>
definition truthy :: "jsnum \<Rightarrow> bool" where
  "truthy x = (x \<noteq> NaN \<and> \<not> is_zero x)"

text \<open>\<open>!v\<close> for \<open>v : number | null\<close>\<close>
definition falsy :: "jsnum option \<Rightarrow> bool" where
  "falsy v = (case v of None \<Rightarrow> True | Some x \<Rightarrow> \<not> truthy x)"

definition js_of_nat :: "nat \<Rightarrow> jsnum" where
  "js_of_nat n = Fin (real n)"

section \<open>Strings and \<open>parseFloat\<close>\<close>

text \<open>
  Strings are lists of 8-bit characters. \<open>toLowerCase\<close> maps the letters A to Z and leaves
  every other character alone; white space is the ASCII part of JavaScript's white space
  and line terminators (tab, line feed, vertical tab, form feed, carriage return, space).
\<close>

definition lower_char :: "char \<Rightarrow> char" where
  "lower_char c =
     (case map_of (zip ''ABCDEFGHIJKLMNOPQRSTUVWXYZ'' ''abcdefghijklmnopqrstuvwxyz'') c of
        None \<Rightarrow> c | Some d \<Rightarrow> d)"

definition toLowerCase :: "string \<Rightarrow> string" where
  "toLowerCase s = map lower_char s"

definition endsWith :: "string \<Rightarrow> string \<Rightarrow> bool" where
  "endsWith s suf = (length suf \<le> length s \<and> drop (length s - length suf) s = suf)"

definition is_ws :: "char \<Rightarrow> bool" where
  "is_ws c = (c \<in> set [CHR 0x09, CHR 0x0A, CHR 0x0B, CHR 0x0C, CHR 0x0D, CHR '' ''])"

definition is_digit :: "char \<Rightarrow> bool" where
  "is_digit c = (c \<in> set ''0123456789'')"

definition digit_val :: "char \<Rightarrow> nat" where
  "digit_val c = length (takeWhile (\<lambda>d. d \<noteq> c) ''0123456789'')"

definition digits_val :: "string \<Rightarrow> nat" where
  "digits_val ds = foldl (\<lambda>a c. 10 * a + digit_val c) 0 ds"

definition split_sign :: "string \<Rightarrow> bool \<times> string" where
  "split_sign s =
     (case s of [] \<Rightarrow> (False, [])
      | c # t \<Rightarrow> if c = CHR ''+'' then (False, t)
                 else if c = CHR ''-'' then (True, t) else (False, s))"

text \<open>The exponent part \<open>e\<close>, \<open>E\<close> with a signed integer; \<open>0\<close> when there is none.\<close>
definition exponent_part :: "string \<Rightarrow> int" where
  "exponent_part s =
     (case s of [] \<Rightarrow> 0
      | c # t \<Rightarrow>
          if c = CHR ''e'' \<or> c = CHR ''E'' then
            (let (neg, u) = split_sign t; ds = takeWhile is_digit u
             in if ds = [] then 0
                else if neg then - int (digits_val ds) else int (digits_val ds))
          else 0)"

definition scale10 :: "real \<Rightarrow> int \<Rightarrow> real" where
  "scale10 m e = (if 0 \<le> e then m * 10 ^ nat e else m / 10 ^ nat (- e))"

text \<open>
  The value of the longest prefix that is a \<open>StrDecimalLiteral\<close> of ECMAScript: an optional
  sign, then \<open>Infinity\<close>, or digits with an optional fraction and exponent; \<open>NaN\<close> when
  no prefix is one.
\<close>
definition str_decimal :: "string \<Rightarrow> jsnum" where
  "str_decimal s =
     (let (neg, u) = split_sign s in
      if take 8 u = ''Infinity'' then mk_inf neg
      else
        let ip = takeWhile is_digit u;
            r1 = dropWhile is_digit u;
            has_dot = (r1 \<noteq> [] \<and> hd r1 = CHR ''.'');
            fp = (if has_dot then takeWhile is_digit (tl r1) else []);
            r2 = (if has_dot then dropWhile is_digit (tl r1) else r1)
        in if ip = [] \<and> fp = [] then NaN
           else
             let m = real (digits_val (ip @ fp)) / 10 ^ length fp;
                 v = scale10 m (exponent_part r2)
             in mk_fin neg (if neg then - v else v))"

definition parseFloat :: "string \<Rightarrow> jsnum" where
  "parseFloat s = str_decimal (dropWhile is_ws s)"

section \<open>Unit parsing and dimension resolution\<close>

definition PX_TO_MM :: jsnum where
  "PX_TO_MM = Fin (25.4 / 96)"

text \<open>\<open>parseUnit\<close>: \<open>null\<close> is \<open>None\<close>; the empty string is falsy as well.\<close>
definition parseUnit :: "string option \<Rightarrow> jsnum option" where
  "parseUnit val =
     (case val of None \<Rightarrow> None
      | Some v0 \<Rightarrow>
          if v0 = [] then None
          else
            let v = toLowerCase v0; num = parseFloat v in
            if endsWith v ''mm'' then Some num
            else if endsWith v ''cm'' then Some (js_mul num (Fin 10))
            else if endsWith v ''in'' then Some (js_mul num (Fin 25.4))
            else if endsWith v ''pt'' then Some (js_mul num (Fin (25.4 / 72)))
            else if endsWith v ''pc'' then Some (js_mul num (Fin (25.4 / 6)))
            else Some (js_mul num PX_TO_MM))"

text \<open>The attributes of the root element that the program reads (\<open>getAttribute\<close>).\<close>
record svg_element =
  attr_width :: "string option"
  attr_height :: "string option"
  attr_viewBox :: "string option"

text \<open>\<open>s.split(/\s|,/)\<close>: a cut at every single separator character.\<close>
fun split_on :: "(char \<Rightarrow> bool) \<Rightarrow> string \<Rightarrow> string list" where
  "split_on p [] = [[]]"
| "split_on p (c # cs) =
     (if p c then [] # split_on p cs
      else (case split_on p cs of [] \<Rightarrow> [[c]] | t # ts \<Rightarrow> (c # t) # ts))"

definition is_sep :: "char \<Rightarrow> bool" where
  "is_sep c = (is_ws c \<or> c = CHR '','')"

text \<open>\<open>s.split(/\s|,/).filter(Boolean).map(parseFloat)\<close>\<close>
definition split_numbers :: "string \<Rightarrow> jsnum list" where
  "split_numbers s = map parseFloat (filter (\<lambda>t. t \<noteq> []) (split_on is_sep s))"

text \<open>An array read; out of range it is \<open>undefined\<close>, which every use here turns into \<open>NaN\<close>.\<close>
definition at_index :: "jsnum list \<Rightarrow> nat \<Rightarrow> jsnum" where
  "at_index xs i = (if i < length xs then xs ! i else NaN)"

record dimensions =
  dim_w :: jsnum
  dim_h :: jsnum

definition or_default :: "jsnum option \<Rightarrow> jsnum \<Rightarrow> jsnum" where
  "or_default v d = (case v of None \<Rightarrow> d | Some x \<Rightarrow> if truthy x then x else d)"

definition getSvgDimensionsInMM :: "svg_element \<Rightarrow> dimensions" where
  "getSvgDimensionsInMM svg =
     (let w = attr_width svg; h = attr_height svg; viewBox = attr_viewBox svg;
          widthMM0 = parseUnit w; heightMM0 = parseUnit h;
          (widthMM1, heightMM1) =
            (case viewBox of
               Some vb \<Rightarrow>
                 if (falsy widthMM0 \<or> falsy heightMM0) \<and> vb \<noteq> [] then
                   (let parts = split_numbers vb in
                    if length parts = 4 then
                      (if falsy widthMM0 then Some (js_mul (parts ! 2) PX_TO_MM) else widthMM0,
                       if falsy heightMM0 then Some (js_mul (parts ! 3) PX_TO_MM) else heightMM0)
                    else (widthMM0, heightMM0))
                 else (widthMM0, heightMM0)
             | None \<Rightarrow> (widthMM0, heightMM0))
      in \<lparr> dim_w = or_default widthMM1 (Fin 210), dim_h = or_default heightMM1 (Fin 297) \<rparr>)"

section \<open>Border instructions\<close>

text \<open>
  The literals \<open>'glue'\<close>, \<open>'cut'\<close>, \<open>'none'\<close> and the four fields; \<open>cut\<close> and \<open>top\<close> are
  constants of HOL already, so they carry a prime here.
\<close>

datatype BorderInstruction = glue | cut' | none

record TileBorderInstructions =
  top' :: BorderInstruction
  right :: BorderInstruction
  bottom :: BorderInstruction
  left :: BorderInstruction

definition getTileBorderInstructions ::
  "jsnum \<Rightarrow> jsnum \<Rightarrow> jsnum \<Rightarrow> jsnum \<Rightarrow> TileBorderInstructions" where
  "getTileBorderInstructions row col totalRows totalCols =
     (let isFirstRow = js_eq row (Fin 0);
          isLastRow = js_eq row (js_sub totalRows (Fin 1));
          isFirstCol = js_eq col (Fin 0);
          isLastCol = js_eq col (js_sub totalCols (Fin 1))
      in \<lparr> top' = (if isFirstRow then none else cut'),
           right = (if isLastCol then none else glue),
           bottom = (if isLastRow then none else glue),
           left = (if isFirstCol then none else cut') \<rparr>)"

section \<open>Tiling: \<open>generateTiledPDF\<close>\<close>

text \<open>
  The options of a call. \<open>svg\<close> holds the attributes of the root element that
  \<open>DOMParser\<close> returns for \<open>svgText\<close>; \<open>onProgress\<close> tells whether a callback was
  supplied (its calls are recorded as events).
\<close>
record PatternSplitterOptions =
  svg :: svg_element
  paperWidth :: jsnum
  paperHeight :: jsnum
  margin :: jsnum
  onProgress :: bool

text \<open>The returned object; the blob is the \<open>Output\<close> event of the trace.\<close>
record PatternSplitterResult =
  tiles :: jsnum
  result_rows :: jsnum
  result_cols :: jsnum

datatype error = ValidationError | RenderError

text \<open>One call of \<open>svg2pdf\<close>: the \<open>viewBox\<close> set on the tile's clone and the placement.\<close>
record render_request =
  tileVx :: jsnum
  tileVy :: jsnum
  tileVw :: jsnum
  tileVh :: jsnum
  place_x :: jsnum
  place_y :: jsnum
  place_width :: jsnum
  place_height :: jsnum

text \<open>
  The calls to the collaborators, in the order the program makes them. \<open>DrawMarks\<close> stands
  for all the drawing after a tile is rendered (border, label, corner marks, ruler,
  diamonds, cut and glue labels); it carries the tile and its border instructions.
\<close>
datatype event =
    LoadLibraries
  | ParseSvg
  | CreatePdf jsnum jsnum
  | AddPage jsnum jsnum
  | Progress jsnum string
  | Render render_request
  | DrawMarks nat nat TileBorderInstructions
  | Output

record run_state =
  events :: "event list"
  processedCount :: nat

definition emit :: "event \<Rightarrow> run_state \<Rightarrow> run_state" where
  "emit e st = st\<lparr>events := events st @ [e]\<rparr>"

subsection \<open>The values computed before the loop\<close>

definition size_of :: "PatternSplitterOptions \<Rightarrow> dimensions" where
  "size_of opts = getSvgDimensionsInMM (svg opts)"

definition svgWidthMM :: "PatternSplitterOptions \<Rightarrow> jsnum" where
  "svgWidthMM opts = dim_w (size_of opts)"

text \<open>
  The \<open>viewBox\<close> numbers after the normalisation step. When the attribute is missing the
  program writes \<open>0 0 w/PX_TO_MM h/PX_TO_MM\<close> into it and parses that string again; number
  to string to \<open>parseFloat\<close> gives the number back, so the four numbers are taken directly.
\<close>
definition viewBox :: "PatternSplitterOptions \<Rightarrow> jsnum list" where
  "viewBox opts =
     (case attr_viewBox (svg opts) of
        None \<Rightarrow> [Fin 0, Fin 0, js_div (dim_w (size_of opts)) PX_TO_MM,
                 js_div (dim_h (size_of opts)) PX_TO_MM]
      | Some vb \<Rightarrow> split_numbers vb)"

definition vbW :: "PatternSplitterOptions \<Rightarrow> jsnum" where
  "vbW opts = at_index (viewBox opts) 2"

definition vbH :: "PatternSplitterOptions \<Rightarrow> jsnum" where
  "vbH opts = at_index (viewBox opts) 3"

definition vbAspect :: "PatternSplitterOptions \<Rightarrow> jsnum" where
  "vbAspect opts = js_div (vbW opts) (vbH opts)"

definition svgHeightMM :: "PatternSplitterOptions \<Rightarrow> jsnum" where
  "svgHeightMM opts = js_div (svgWidthMM opts) (vbAspect opts)"

definition usableW :: "PatternSplitterOptions \<Rightarrow> jsnum" where
  "usableW opts = js_sub (paperWidth opts) (js_mul (Fin 2) (margin opts))"

definition usableH :: "PatternSplitterOptions \<Rightarrow> jsnum" where
  "usableH opts = js_sub (paperHeight opts) (js_mul (Fin 2) (margin opts))"

definition cols :: "PatternSplitterOptions \<Rightarrow> jsnum" where
  "cols opts = js_ceil (js_div (svgWidthMM opts) (usableW opts))"

definition rows :: "PatternSplitterOptions \<Rightarrow> jsnum" where
  "rows opts = js_ceil (js_div (svgHeightMM opts) (usableH opts))"

definition totalTiles :: "PatternSplitterOptions \<Rightarrow> jsnum" where
  "totalTiles opts = js_mul (cols opts) (rows opts)"

definition vx :: "PatternSplitterOptions \<Rightarrow> jsnum" where
  "vx opts = at_index (viewBox opts) 0"

definition vy :: "PatternSplitterOptions \<Rightarrow> jsnum" where
  "vy opts = at_index (viewBox opts) 1"

definition vw :: "PatternSplitterOptions \<Rightarrow> jsnum" where
  "vw opts = at_index (viewBox opts) 2"

definition vh :: "PatternSplitterOptions \<Rightarrow> jsnum" where
  "vh opts = at_index (viewBox opts) 3"

definition scaleX :: "PatternSplitterOptions \<Rightarrow> jsnum" where
  "scaleX opts = js_div (vw opts) (svgWidthMM opts)"

definition scaleY :: "PatternSplitterOptions \<Rightarrow> jsnum" where
  "scaleY opts = js_div (vh opts) (svgHeightMM opts)"

subsection \<open>One tile\<close>

definition digit_char :: "nat \<Rightarrow> char" where
  "digit_char d = ''0123456789'' ! (d mod 10)"

function show_nat :: "nat \<Rightarrow> string" where
  "show_nat n = (if n < 10 then [digit_char n] else show_nat (n div 10) @ [digit_char (n mod 10)])"
  by pat_completeness auto
termination
  by (relation "measure (\<lambda>n. n)") auto

declare show_nat.simps [simp del]

text \<open>The template \<open>Generating Tile ${r + 1}-${c + 1}...\<close>\<close>
definition progress_message :: "nat \<Rightarrow> nat \<Rightarrow> string" where
  "progress_message r c =
     ''Generating Tile '' @ show_nat (r + 1) @ ''-'' @ show_nat (c + 1) @ ''...''"

definition tile_request :: "PatternSplitterOptions \<Rightarrow> nat \<Rightarrow> nat \<Rightarrow> render_request" where
  "tile_request opts r c =
     (let startX_MM = js_mul (js_of_nat c) (usableW opts);
          startY_MM = js_mul (js_of_nat r) (usableH opts)
      in \<lparr> tileVx = js_add (vx opts) (js_mul startX_MM (scaleX opts)),
           tileVy = js_add (vy opts) (js_mul startY_MM (scaleY opts)),
           tileVw = js_mul (usableW opts) (scaleX opts),
           tileVh = js_mul (usableH opts) (scaleY opts),
           place_x = margin opts,
           place_y = margin opts,
           place_width = usableW opts,
           place_height = usableH opts \<rparr>)"

definition progress_percent :: "PatternSplitterOptions \<Rightarrow> nat \<Rightarrow> jsnum" where
  "progress_percent opts count =
     js_round (js_mul (js_div (js_of_nat count) (totalTiles opts)) (Fin 100))"

text \<open>
  The body of the inner loop for tile \<open>(r, c)\<close>. \<open>svg2pdfFn\<close> tells whether the awaited
  render call resolves; when it rejects the exception leaves the function.
\<close>
definition tile_step ::
  "(render_request \<Rightarrow> bool) \<Rightarrow> PatternSplitterOptions \<Rightarrow> nat \<Rightarrow> nat \<Rightarrow> run_state
     \<Rightarrow> error option \<times> run_state" where
  "tile_step svg2pdfFn opts r c st =
     (let st1 = (if r > 0 \<or> c > 0 then emit (AddPage (paperWidth opts) (paperHeight opts)) st
                 else st);
          st2 = st1\<lparr>processedCount := processedCount st1 + 1\<rparr>;
          st3 = (if onProgress opts
                 then emit (Progress (progress_percent opts (processedCount st2))
                              (progress_message r c)) st2
                 else st2);
          req = tile_request opts r c;
          st4 = emit (Render req) st3
      in if svg2pdfFn req
         then (None, emit (DrawMarks r c
                 (getTileBorderInstructions (js_of_nat r) (js_of_nat c) (rows opts) (cols opts)))
                 st4)
         else (Some RenderError, st4))"

subsection \<open>The loops and the function\<close>

partial_function (option) inner_loop ::
  "(render_request \<Rightarrow> bool) \<Rightarrow> PatternSplitterOptions \<Rightarrow> nat \<Rightarrow> nat \<Rightarrow> run_state
     \<Rightarrow> (error option \<times> run_state) option" where
  "inner_loop svg2pdfFn opts r c st =
     (if js_lt (js_of_nat c) (cols opts) then
        (case tile_step svg2pdfFn opts r c st of
           (Some e, st') \<Rightarrow> Some (Some e, st')
         | (None, st') \<Rightarrow> inner_loop svg2pdfFn opts r (c + 1) st')
      else Some (None, st))"

declare inner_loop.simps [code]

partial_function (option) outer_loop ::
  "(render_request \<Rightarrow> bool) \<Rightarrow> PatternSplitterOptions \<Rightarrow> nat \<Rightarrow> run_state
     \<Rightarrow> (error option \<times> run_state) option" where
  "outer_loop svg2pdfFn opts r st =
     (if js_lt (js_of_nat r) (rows opts) then
        (case inner_loop svg2pdfFn opts r 0 st of
           None \<Rightarrow> None
         | Some (Some e, st') \<Rightarrow> Some (Some e, st')
         | Some (None, st') \<Rightarrow> outer_loop svg2pdfFn opts (r + 1) st')
      else Some (None, st))"

declare outer_loop.simps [code]

text \<open>
  \<open>generateTiledPDF\<close>: \<open>None\<close> when the loops never end; otherwise the trace of calls
  and either the error thrown or the returned object.
\<close>
definition generateTiledPDF ::
  "(render_request \<Rightarrow> bool) \<Rightarrow> PatternSplitterOptions
     \<Rightarrow> (event list \<times> (error + PatternSplitterResult)) option" where
  "generateTiledPDF svg2pdfFn opts =
     (if js_lt (margin opts) (Fin 10) then Some ([], Inl ValidationError)
      else
        let st0 = \<lparr> events = [LoadLibraries, ParseSvg,
                               CreatePdf (paperWidth opts) (paperHeight opts)],
                    processedCount = 0 \<rparr>
        in case outer_loop svg2pdfFn opts 0 st0 of
             None \<Rightarrow> None
           | Some (Some e, st) \<Rightarrow> Some (events st, Inl e)
           | Some (None, st) \<Rightarrow>
               Some (events st @ [Output],
                     Inr \<lparr> tiles = totalTiles opts, result_rows = rows opts,
                           result_cols = cols opts \<rparr>))"

section \<open>Auxiliary definitions for the proofs\<close>

text \<open>
  The number of iterations of a loop \<open>for (i = 0; i < n; i++)\<close>: none when \<open>n\<close> is
  \<open>NaN\<close>, negative or zero, \<open>\<lceil>n\<rceil>\<close> for a positive finite \<open>n\<close>, and no bound at all
  for \<open>Infinity\<close>.
\<close>

definition loop_bound :: "jsnum \<Rightarrow> nat option" where
  "loop_bound n = (case n of PInf \<Rightarrow> None | Fin x \<Rightarrow> Some (nat \<lceil>x\<rceil>) | _ \<Rightarrow> Some 0)"

text \<open>
  The events of tile \<open>(r, c)\<close> when its render call resolves; \<open>k\<close> is the number of
  tiles processed before it.
\<close>

definition tile_trace :: "PatternSplitterOptions \<Rightarrow> nat \<Rightarrow> nat \<Rightarrow> nat \<Rightarrow> event list" where
  "tile_trace opts r c k =
     (if r > 0 \<or> c > 0 then [AddPage (paperWidth opts) (paperHeight opts)] else []) @
     (if onProgress opts
      then [Progress (progress_percent opts (k + 1)) (progress_message r c)] else []) @
     [Render (tile_request opts r c),
      DrawMarks r c (getTileBorderInstructions (js_of_nat r) (js_of_nat c) (rows opts) (cols opts))]"

fun cols_trace :: "PatternSplitterOptions \<Rightarrow> nat \<Rightarrow> nat \<Rightarrow> nat \<Rightarrow> nat \<Rightarrow> event list" where
  "cols_trace opts r c k 0 = []"
| "cols_trace opts r c k (Suc n) = tile_trace opts r c k @ cols_trace opts r (Suc c) (Suc k) n"

fun rows_trace :: "PatternSplitterOptions \<Rightarrow> nat \<Rightarrow> nat \<Rightarrow> nat \<Rightarrow> nat \<Rightarrow> event list" where
  "rows_trace opts C r k 0 = []"
| "rows_trace opts C r k (Suc n) = cols_trace opts r 0 k C @ rows_trace opts C (Suc r) (k + C) n"


text \<open>The 400 mm by 400 mm document on A4 paper with a 10 mm margin, as in the tests.\<close>

definition spec_example :: PatternSplitterOptions where
  "spec_example =
     \<lparr> svg = \<lparr> attr_width = Some ''400mm'', attr_height = Some ''400mm'',
                 attr_viewBox = Some ''0 0 400 400'' \<rparr>,
       paperWidth = Fin 210, paperHeight = Fin 297, margin = Fin 10, onProgress = True \<rparr>"

text \<open>
  Dimension resolution in the words of the specification. A value is usable when it is a
  number other than \<open>NaN\<close> and zero; the \<open>viewBox\<close> extent of an axis is available when
  the attribute is present, not empty and splits into exactly four numbers.
\<close>

definition usable :: "jsnum option \<Rightarrow> jsnum option" where
  "usable v = (case v of None \<Rightarrow> None | Some x \<Rightarrow> if truthy x then Some x else None)"

definition viewBox_extent :: "string option \<Rightarrow> nat \<Rightarrow> jsnum option" where
  "viewBox_extent vb i =
     (case vb of None \<Rightarrow> None
      | Some s \<Rightarrow>
          if s = [] then None
          else let parts = split_numbers s
               in if length parts = 4 then Some (js_mul (parts ! i) PX_TO_MM) else None)"

definition spec_resolve_axis :: "string option \<Rightarrow> string option \<Rightarrow> nat \<Rightarrow> jsnum \<Rightarrow> jsnum" where
  "spec_resolve_axis attr vb i dflt =
     (case usable (parseUnit attr) of
        Some x \<Rightarrow> x
      | None \<Rightarrow> (case usable (viewBox_extent vb i) of Some y \<Rightarrow> y | None \<Rightarrow> dflt))"

text \<open>The factor of a length string in the words of the specification, by its suffix.\<close>

definition spec_unit_factor :: "string \<Rightarrow> jsnum" where
  "spec_unit_factor s =
     (if endsWith s ''mm'' then Fin 1
      else if endsWith s ''cm'' then Fin 10
      else if endsWith s ''in'' then Fin 25.4
      else if endsWith s ''pt'' then Fin (25.4 / 72)
      else if endsWith s ''pc'' then Fin (25.4 / 6)
      else Fin (25.4 / 96))"




section \<open>Facts about numbers and the loops\<close>

lemma js_lt_bound: "loop_bound n = Some b \<Longrightarrow> js_lt (js_of_nat i) n \<longleftrightarrow> i < b"
  by (cases n) (auto simp: loop_bound_def js_lt_def js_of_nat_def rv_def less_ceiling_iff
      nat_less_iff zless_nat_eq_int_zless)

lemma tile_step_ok:
  "svg2pdfFn (tile_request opts r c) \<Longrightarrow>
   tile_step svg2pdfFn opts r c st =
     (None, st\<lparr>events := events st @ tile_trace opts r c (processedCount st),
               processedCount := processedCount st + 1\<rparr>)"
  by (simp add: tile_step_def tile_trace_def emit_def Let_def)

lemma inner_loop_run:
  assumes ok: "\<forall>req. svg2pdfFn req" and b: "loop_bound (cols opts) = Some C"
  shows "c + n = C \<Longrightarrow>
    inner_loop svg2pdfFn opts r c st =
      Some (None, st\<lparr>events := events st @ cols_trace opts r c (processedCount st) n,
                     processedCount := processedCount st + n\<rparr>)"
proof (induction n arbitrary: c st)
  case 0
  then have "\<not> js_lt (js_of_nat c) (cols opts)" using js_lt_bound [OF b] by simp
  then show ?case by (subst inner_loop.simps) simp
next
  case (Suc n)
  then have lt: "js_lt (js_of_nat c) (cols opts)" using js_lt_bound [OF b] by simp
  have step: "tile_step svg2pdfFn opts r c st =
     (None, st\<lparr>events := events st @ tile_trace opts r c (processedCount st),
               processedCount := processedCount st + 1\<rparr>)"
    using ok by (simp add: tile_step_ok)
  from Suc.prems have "Suc c + n = C" by simp
  note IH = Suc.IH [OF this]
  have "inner_loop svg2pdfFn opts r c st =
      inner_loop svg2pdfFn opts r (Suc c)
        (st\<lparr>events := events st @ tile_trace opts r c (processedCount st),
            processedCount := processedCount st + 1\<rparr>)"
    by (subst inner_loop.simps) (simp add: lt step)
  then show ?case by (simp add: IH)
qed

lemma outer_loop_run:
  assumes ok: "\<forall>req. svg2pdfFn req" and bc: "loop_bound (cols opts) = Some C"
    and br: "loop_bound (rows opts) = Some R"
  shows "r + n = R \<Longrightarrow>
    outer_loop svg2pdfFn opts r st =
      Some (None, st\<lparr>events := events st @ rows_trace opts C r (processedCount st) n,
                     processedCount := processedCount st + n * C\<rparr>)"
proof (induction n arbitrary: r st)
  case 0
  then have "\<not> js_lt (js_of_nat r) (rows opts)" using js_lt_bound [OF br] by simp
  then show ?case by (subst outer_loop.simps) simp
next
  case (Suc n)
  then have lt: "js_lt (js_of_nat r) (rows opts)" using js_lt_bound [OF br] by simp
  have inner: "inner_loop svg2pdfFn opts r 0 st =
      Some (None, st\<lparr>events := events st @ cols_trace opts r 0 (processedCount st) C,
                     processedCount := processedCount st + C\<rparr>)"
    using inner_loop_run [OF ok bc, of 0 C r st] by simp
  from Suc.prems have "Suc r + n = R" by simp
  note IH = Suc.IH [OF this]
  have "outer_loop svg2pdfFn opts r st =
      outer_loop svg2pdfFn opts (Suc r)
        (st\<lparr>events := events st @ cols_trace opts r 0 (processedCount st) C,
            processedCount := processedCount st + C\<rparr>)"
    by (subst outer_loop.simps) (simp add: lt inner)
  then show ?case by (simp add: IH add.commute add.left_commute)
qed

lemma cols_trace_flat:
  "cols_trace opts r c k n = concat (map (\<lambda>j. tile_trace opts r (c + j) (k + j)) [0..<n])"
proof (induction n arbitrary: c k)
  case 0
  show ?case by simp
next
  case (Suc n)
  have "[0..<Suc n] = 0 # map Suc [0..<n]"
    by (simp add: upt_conv_Cons map_Suc_upt del: upt_Suc)
  then show ?case by (simp add: Suc.IH comp_def del: upt_Suc)
qed

lemma rows_trace_flat:
  "rows_trace opts C r (r * C) n =
     concat (map (\<lambda>i. tile_trace opts (i div C) (i mod C) i) [r * C..<(r + n) * C])"
proof (induction n arbitrary: r)
  case 0
  show ?case by simp
next
  case (Suc n)
  have split: "[r * C..<(r + Suc n) * C] = [r * C..<r * C + C] @ [Suc r * C..<(Suc r + n) * C]"
    using upt_add_eq_append [of "r * C" "r * C + C" "n * C"] by (simp add: algebra_simps)
  have seg: "[r * C..<r * C + C] = map (\<lambda>j. r * C + j) [0..<C]"
    by (simp add: map_add_upt add.commute)
  have row: "cols_trace opts r 0 (r * C) C =
     concat (map (\<lambda>i. tile_trace opts (i div C) (i mod C) i) [r * C..<r * C + C])"
    unfolding seg cols_trace_flat by (rule arg_cong [where f = concat]) (auto simp: comp_def)
  have e: "r * C + C = Suc r * C" by simp
  note rest = Suc.IH [of "Suc r"]
  show ?case
    by (simp only: rows_trace.simps split row e rest map_append concat_append)
qed

lemma generateTiledPDF_run:
  assumes m: "\<not> js_lt (margin opts) (Fin 10)" and ok: "\<forall>req. svg2pdfFn req"
    and br: "loop_bound (rows opts) = Some R" and bc: "loop_bound (cols opts) = Some C"
  shows "generateTiledPDF svg2pdfFn opts =
     Some ([LoadLibraries, ParseSvg, CreatePdf (paperWidth opts) (paperHeight opts)] @
           concat (map (\<lambda>i. tile_trace opts (i div C) (i mod C) i) [0..<R * C]) @ [Output],
           Inr \<lparr> tiles = totalTiles opts, result_rows = rows opts, result_cols = cols opts \<rparr>)"
  using outer_loop_run [OF ok bc br, of 0 R] rows_trace_flat [of opts C 0 R] m
  by (simp add: generateTiledPDF_def)





lemma js_sub_Fin: "js_sub (Fin a) (Fin b) = Fin (a - b)"
  by (simp add: js_sub_def js_neg_def js_add_def is_inf_def rv_def)


lemma loop_bound_Fin: "loop_bound (Fin x) = Some (nat \<lceil>x\<rceil>)"
  by (simp add: loop_bound_def)





subsection \<open>Evaluation of the example\<close>

lemmas parse_defs = toLowerCase_def lower_char_def endsWith_def parseFloat_def
  str_decimal_def split_sign_def is_ws_def is_digit_def digit_val_def digits_val_def
  exponent_part_def scale10_def

lemmas num_defs = js_mul_def js_div_def js_add_def js_sub_def js_neg_def js_lt_def js_eq_def
  js_ceil_def js_round_def mk_fin_def mk_zero_def mk_inf_def is_zero_def is_inf_def sign_neg_def
  rv_def truthy_def falsy_def

lemma parseUnit_400mm: "parseUnit (Some ''400mm'') = Some (Fin 400)"
  by (simp add: parseUnit_def parse_defs num_defs)

lemma split_numbers_400: "split_numbers ''0 0 400 400'' = [Fin 0, Fin 0, Fin 400, Fin 400]"
  by (simp add: split_numbers_def is_sep_def parse_defs num_defs)

lemma spec_example_fields:
  "attr_width (svg spec_example) = Some ''400mm''"
  "attr_height (svg spec_example) = Some ''400mm''"
  "attr_viewBox (svg spec_example) = Some ''0 0 400 400''"
  "onProgress spec_example"
  by (simp_all add: spec_example_def)

lemma spec_example_values:
  "svgWidthMM spec_example = Fin 400" "svgHeightMM spec_example = Fin 400"
  "paperWidth spec_example = Fin 210" "paperHeight spec_example = Fin 297"
  "margin spec_example = Fin 10"
proof -
  show w: "svgWidthMM spec_example = Fin 400"
    by (simp add: svgWidthMM_def size_of_def getSvgDimensionsInMM_def spec_example_fields
        parseUnit_400mm or_default_def num_defs)
  show "svgHeightMM spec_example = Fin 400"
    by (simp add: svgHeightMM_def vbAspect_def vbW_def vbH_def viewBox_def at_index_def w
        split_numbers_400 spec_example_fields num_defs)
qed (simp_all add: spec_example_def)

subsection \<open>Dimension resolution\<close>

lemma js_mul_one: "js_mul x (Fin 1) = x"
  by (cases x) (simp_all add: js_mul_def is_inf_def is_zero_def sign_neg_def rv_def mk_inf_def
      mk_fin_def mk_zero_def)

lemma or_default_usable:
  "or_default v d = (case usable v of Some x \<Rightarrow> x | None \<Rightarrow> d)"
  by (simp add: or_default_def usable_def split: option.splits)

lemma falsy_usable: "falsy v \<longleftrightarrow> usable v = None"
  by (simp add: falsy_def usable_def split: option.splits)

lemma usable_idem: "usable v = Some x \<Longrightarrow> usable (Some x) = Some x"
  by (simp add: usable_def split: option.splits if_splits)

lemma usable_None: "usable None = None"
  by (simp add: usable_def)

lemma getSvgDimensionsInMM_axes:
  "getSvgDimensionsInMM el =
     \<lparr> dim_w = spec_resolve_axis (attr_width el) (attr_viewBox el) 2 (Fin 210),
       dim_h = spec_resolve_axis (attr_height el) (attr_viewBox el) 3 (Fin 297) \<rparr>"
proof (cases "attr_viewBox el")
  case None
  have "usable (viewBox_extent None i) = None" for i
    by (simp add: viewBox_extent_def usable_None)
  then show ?thesis using None
    by (simp add: getSvgDimensionsInMM_def spec_resolve_axis_def or_default_usable
        split: option.splits)
next
  case (Some vb)
  show ?thesis
  proof (cases "vb \<noteq> [] \<and> length (split_numbers vb) = 4")
    case False
    then have "usable (viewBox_extent (Some vb) i) = None" for i
      by (auto simp: viewBox_extent_def Let_def usable_None)
    then show ?thesis using Some False
      by (auto simp: getSvgDimensionsInMM_def spec_resolve_axis_def or_default_usable Let_def
          split: option.splits)
  next
    case True
    then have "viewBox_extent (Some vb) i = Some (js_mul (split_numbers vb ! i) PX_TO_MM)" for i
      by (simp add: viewBox_extent_def Let_def)
    then show ?thesis using Some True
      by (cases "usable (parseUnit (attr_width el))"; cases "usable (parseUnit (attr_height el))")
        (simp_all add: getSvgDimensionsInMM_def spec_resolve_axis_def
          or_default_usable falsy_usable Let_def usable_idem)
  qed
qed


lemma usable_truthy: "usable v = Some x \<Longrightarrow> truthy x"
  by (simp add: usable_def split: option.splits if_splits)

lemma spec_resolve_axis_truthy: "truthy d \<Longrightarrow> truthy (spec_resolve_axis a vb i d)"
  by (auto simp: spec_resolve_axis_def dest: usable_truthy split: option.splits)

lemma spec_resolve_axis_default:
  "falsy (parseUnit a) \<Longrightarrow> falsy (viewBox_extent vb i) \<Longrightarrow> spec_resolve_axis a vb i d = d"
  by (simp add: spec_resolve_axis_def falsy_usable)

lemma truthy_iff: "truthy x \<longleftrightarrow> x \<noteq> NaN \<and> x \<noteq> Fin 0 \<and> x \<noteq> NZero"
  by (auto simp: truthy_def is_zero_def)

subsection \<open>Errors leaving the loops\<close>

lemma tile_step_error: "tile_step f opts r c st = (Some e, st') \<Longrightarrow> e = RenderError"
  by (simp add: tile_step_def Let_def split: if_splits)

lemma inner_loop_error:
  assumes "inner_loop f opts r c st = Some y"
  shows "\<forall>e. fst y = Some e \<longrightarrow> e = RenderError"
  by (rule inner_loop.raw_induct
      [where P = "\<lambda>f opts r c st y. \<forall>e. fst y = Some e \<longrightarrow> e = RenderError", OF _ assms])
    (auto split: if_splits prod.splits option.splits dest: tile_step_error)

lemma outer_loop_error:
  assumes "outer_loop f opts r st = Some y"
  shows "\<forall>e. fst y = Some e \<longrightarrow> e = RenderError"
  by (rule outer_loop.raw_induct
      [where P = "\<lambda>f opts r st y. \<forall>e. fst y = Some e \<longrightarrow> e = RenderError", OF _ assms])
    (auto split: if_splits prod.splits option.splits dest: inner_loop_error)

subsection \<open>A loop that never ends\<close>

lemma inner_loop_diverges:
  assumes c: "cols opts = PInf" and ok: "\<forall>req. f req"
  shows "inner_loop f opts r c st = None"
proof (cases "inner_loop f opts r c st")
  case None
  then show ?thesis .
next
  case (Some y)
  have "cols opts = PInf \<and> (\<forall>req. f req) \<longrightarrow> False"
  proof (rule inner_loop.raw_induct
      [where P = "\<lambda>f opts r c st y. cols opts = PInf \<and> (\<forall>req. f req) \<longrightarrow> False", OF _ Some])
    fix inner f opts r c st y
    assume IH: "\<And>f opts r c st y. inner f opts r c st = Some y \<Longrightarrow>
        cols opts = PInf \<and> (\<forall>req. f req) \<longrightarrow> False"
      and body: "(if js_lt (js_of_nat c) (cols opts) then
          (case tile_step f opts r c st of
             (None, st') \<Rightarrow> inner f opts r (c + 1) st'
           | (Some e, st') \<Rightarrow> Some (Some e, st'))
         else Some (None, st)) = Some y"
    show "cols opts = PInf \<and> (\<forall>req. f req) \<longrightarrow> False"
    proof
      assume a: "cols opts = PInf \<and> (\<forall>req. f req)"
      then have "js_lt (js_of_nat c) (cols opts)" by (simp add: js_lt_def js_of_nat_def)
      moreover have "tile_step f opts r c st =
          (None, st\<lparr>events := events st @ tile_trace opts r c (processedCount st),
                    processedCount := processedCount st + 1\<rparr>)"
        using a by (simp add: tile_step_ok)
      ultimately have "inner f opts r (c + 1)
          (st\<lparr>events := events st @ tile_trace opts r c (processedCount st),
              processedCount := processedCount st + 1\<rparr>) = Some y"
        using body by simp
      from IH [OF this] a show False by simp
    qed
  qed
  with c ok show ?thesis by simp
qed

lemma size_of_paperWidth_update: "size_of (opts\<lparr>paperWidth := x\<rparr>) = size_of opts"
  by (simp add: size_of_def)

lemma viewBox_paperWidth_update: "viewBox (opts\<lparr>paperWidth := x\<rparr>) = viewBox opts"
  by (simp add: viewBox_def size_of_paperWidth_update split: option.splits)

lemma layout_paperWidth_update:
  "svgWidthMM (opts\<lparr>paperWidth := x\<rparr>) = svgWidthMM opts"
  "svgHeightMM (opts\<lparr>paperWidth := x\<rparr>) = svgHeightMM opts"
  "usableH (opts\<lparr>paperWidth := x\<rparr>) = usableH opts"
  by (simp_all add: svgWidthMM_def svgHeightMM_def vbAspect_def vbW_def vbH_def
      viewBox_paperWidth_update size_of_paperWidth_update usableH_def)

lemma spec_example_rows: "rows spec_example = Fin 2"
  by (simp add: rows_def usableH_def spec_example_values num_defs)



subsection \<open>Independence of the declared height\<close>





subsection \<open>The progress percentage\<close>




subsection \<open>Tile regions\<close>












section \<open>The claims\<close>

subsection \<open>C1: grid size, coverage and page count\<close>



subsection \<open>C2: border instructions\<close>

text \<open>
  Claim C2. For a grid position with \<open>row < totalRows\<close> and \<open>col < totalCols\<close>,
  \<open>getTileBorderInstructions\<close> returns \<open>top = cut\<close> unless \<open>row = 0\<close>, \<open>left = cut\<close> unless
  \<open>col = 0\<close>, \<open>right = glue\<close> unless \<open>col = totalCols - 1\<close> and \<open>bottom = glue\<close> unless
  \<open>row = totalRows - 1\<close>; the exceptions are \<open>none\<close>.
\<close>

theorem getTileBorderInstructions_rule:
  assumes "row < totalRows" and "col < totalCols"
  shows "getTileBorderInstructions (js_of_nat row) (js_of_nat col)
           (js_of_nat totalRows) (js_of_nat totalCols) =
         \<lparr> top' = (if row = 0 then none else cut'),
           right = (if col = totalCols - 1 then none else glue),
           bottom = (if row = totalRows - 1 then none else glue),
           left = (if col = 0 then none else cut') \<rparr>"
proof -
  have r: "real row = real totalRows - 1 \<longleftrightarrow> row = totalRows - 1"
    using assms(1) by (auto simp: of_nat_diff)
  have c: "real col = real totalCols - 1 \<longleftrightarrow> col = totalCols - 1"
    using assms(2) by (auto simp: of_nat_diff)
  show ?thesis
    by (simp add: getTileBorderInstructions_def js_of_nat_def js_sub_Fin js_eq_def is_zero_def r c)
qed

text \<open>The single tile of a 1 by 1 grid has no instruction; a tile of a 3 by 2 grid.\<close>

theorem getTileBorderInstructions_rule_witness:
  "(0::nat) < 1 \<and>
   getTileBorderInstructions (js_of_nat 0) (js_of_nat 0) (js_of_nat 1) (js_of_nat 1) =
     \<lparr> top' = none, right = none, bottom = none, left = none \<rparr> \<and>
   (1::nat) < 3 \<and> (1::nat) < 2 \<and>
   getTileBorderInstructions (js_of_nat 1) (js_of_nat 1) (js_of_nat 3) (js_of_nat 2) =
     \<lparr> top' = cut', right = none, bottom = glue, left = cut' \<rparr>"
  using getTileBorderInstructions_rule [of 0 1 0 1] getTileBorderInstructions_rule [of 1 3 1 2]
  by simp

subsection \<open>C3: margins that consume the paper\<close>

text \<open>
  Claim C3 says that a usable width or height of at most zero makes \<open>generateTiledPDF\<close> fail
  with a layout error before any tile is processed. The function has no such check. With the
  document of the example on paper 15 mm wide (usable width \<open>-5\<close>) it returns normally, with
  a one-page document, \<open>-80\<close> columns and \<open>-160\<close> tiles; on paper 20 mm wide (usable width
  \<open>0\<close>) the number of columns is \<open>Infinity\<close> and the inner loop never ends.
\<close>

theorem no_layout_error:
  "usableW (spec_example\<lparr>paperWidth := Fin 15\<rparr>) = Fin (- 5) \<and>
   generateTiledPDF (\<lambda>_. True) (spec_example\<lparr>paperWidth := Fin 15\<rparr>) =
     Some ([LoadLibraries, ParseSvg, CreatePdf (Fin 15) (Fin 297), Output],
           Inr \<lparr> tiles = Fin (- 160), result_rows = Fin 2, result_cols = Fin (- 80) \<rparr>) \<and>
   usableW (spec_example\<lparr>paperWidth := Fin 20\<rparr>) = Fin 0 \<and>
   generateTiledPDF (\<lambda>_. True) (spec_example\<lparr>paperWidth := Fin 20\<rparr>) = None"
proof -
  let ?a = "spec_example\<lparr>paperWidth := Fin 15\<rparr>" and ?b = "spec_example\<lparr>paperWidth := Fin 20\<rparr>"
  have m: "margin ?a = Fin 10" "margin ?b = Fin 10" "paperHeight ?a = Fin 297"
    by (simp_all add: spec_example_def)
  have ua: "usableW ?a = Fin (- 5)" and ub: "usableW ?b = Fin 0"
    by (simp_all add: usableW_def m num_defs)
  have ra: "rows ?a = Fin 2" and rb: "rows ?b = Fin 2"
    using spec_example_rows by (simp_all add: rows_def layout_paperWidth_update)
  have ca: "cols ?a = Fin (- 80)"
    by (simp add: cols_def ua layout_paperWidth_update spec_example_values num_defs)
  have cb: "cols ?b = PInf"
    by (simp add: cols_def ub layout_paperWidth_update spec_example_values num_defs)
  have ta: "totalTiles ?a = Fin (- 160)"
    by (simp add: totalTiles_def ca ra num_defs)
  have nm: "\<not> js_lt (margin ?a) (Fin 10)" "\<not> js_lt (margin ?b) (Fin 10)"
    by (simp_all add: m js_lt_def rv_def)
  have "generateTiledPDF (\<lambda>_. True) ?a =
     Some ([LoadLibraries, ParseSvg, CreatePdf (Fin 15) (Fin 297), Output],
           Inr \<lparr> tiles = Fin (- 160), result_rows = Fin 2, result_cols = Fin (- 80) \<rparr>)"
  proof -
    have b: "loop_bound (rows ?a) = Some 2" "loop_bound (cols ?a) = Some 0"
      by (simp_all add: ra ca loop_bound_Fin)
    have t: "\<forall>req::render_request. True" by simp
    show ?thesis
      using generateTiledPDF_run [OF nm(1) t b] by (simp add: ra ca ta m)
  qed
  moreover have "inner_loop (\<lambda>_. True) ?b 0 0 st = None" for st
    by (rule inner_loop_diverges) (simp_all add: cb)
  then have "outer_loop (\<lambda>_. True) ?b 0 st = None" for st
    by (subst outer_loop.simps) (simp add: rb js_lt_def js_of_nat_def rv_def)
  then have "generateTiledPDF (\<lambda>_. True) ?b = None"
    by (simp add: generateTiledPDF_def spec_example_values js_lt_def rv_def)
  ultimately show ?thesis using ua ub by simp
qed

subsection \<open>C4: the margin check\<close>

text \<open>
  Claim C4. A margin below 10 makes \<open>generateTiledPDF\<close> throw the validation error before
  any other call (the trace is empty: no library is loaded, nothing is parsed, laid out or
  rendered); a margin of exactly 10 never produces the validation error.
\<close>

theorem margin_validation:
  "(js_lt (margin opts) (Fin 10) \<longrightarrow>
      generateTiledPDF svg2pdfFn opts = Some ([], Inl ValidationError)) \<and>
   (margin opts = Fin 10 \<longrightarrow>
      (\<forall>evs. generateTiledPDF svg2pdfFn opts \<noteq> Some (evs, Inl ValidationError)))"
proof (intro conjI impI allI)
  assume "js_lt (margin opts) (Fin 10)"
  then show "generateTiledPDF svg2pdfFn opts = Some ([], Inl ValidationError)"
    by (simp add: generateTiledPDF_def)
next
  fix evs
  assume m: "margin opts = Fin 10"
  have nl: "\<not> js_lt (Fin 10) (Fin 10)" by (simp add: js_lt_def rv_def)
  show "generateTiledPDF svg2pdfFn opts \<noteq> Some (evs, Inl ValidationError)"
  proof
    assume a: "generateTiledPDF svg2pdfFn opts = Some (evs, Inl ValidationError)"
    then obtain st where "outer_loop svg2pdfFn opts 0
        \<lparr> events = [LoadLibraries, ParseSvg, CreatePdf (paperWidth opts) (paperHeight opts)],
          processedCount = 0 \<rparr> = Some (Some ValidationError, st)"
      by (auto simp: generateTiledPDF_def m nl split: option.splits prod.splits)
    from outer_loop_error [OF this] show False by simp
  qed
qed


text \<open>A margin of 9 mm is rejected with an empty trace; the 10 mm margin of the example is not.\<close>

theorem margin_validation_witness:
  "js_lt (margin (spec_example\<lparr>margin := Fin 9\<rparr>)) (Fin 10) \<and>
   generateTiledPDF (\<lambda>_. True) (spec_example\<lparr>margin := Fin 9\<rparr>) =
     Some ([], Inl ValidationError) \<and>
   margin spec_example = Fin 10 \<and>
   (\<forall>evs. generateTiledPDF (\<lambda>_. True) spec_example \<noteq> Some (evs, Inl ValidationError))"
proof -
  have a: "js_lt (margin (spec_example\<lparr>margin := Fin 9\<rparr>)) (Fin 10)"
    by (simp add: js_lt_def rv_def)
  have b: "margin spec_example = Fin 10" by (simp add: spec_example_def)
  show ?thesis
    using margin_validation [of "spec_example\<lparr>margin := Fin 9\<rparr>" "\<lambda>_. True"]
      margin_validation [of spec_example "\<lambda>_. True"] a b
    by blast
qed

subsection \<open>C5: the height used for layout\<close>




subsection \<open>C6: the region of each tile\<close>




subsection \<open>C7: the fallback chain of dimension resolution\<close>

text \<open>
  Claim C7. Each axis is resolved on its own: the attribute when it gives a usable value,
  otherwise the \<open>viewBox\<close> extent times \<open>25.4 / 96\<close> when that is available and usable,
  otherwise the default, 210 for the width and 297 for the height; with no attribute at all
  the result is \<open>(210, 297)\<close>.
\<close>

theorem getSvgDimensionsInMM_chain:
  "getSvgDimensionsInMM el =
     \<lparr> dim_w = spec_resolve_axis (attr_width el) (attr_viewBox el) 2 (Fin 210),
       dim_h = spec_resolve_axis (attr_height el) (attr_viewBox el) 3 (Fin 297) \<rparr> \<and>
   getSvgDimensionsInMM \<lparr> attr_width = None, attr_height = None, attr_viewBox = None \<rparr> =
     \<lparr> dim_w = Fin 210, dim_h = Fin 297 \<rparr>"
proof
  show "getSvgDimensionsInMM el =
     \<lparr> dim_w = spec_resolve_axis (attr_width el) (attr_viewBox el) 2 (Fin 210),
       dim_h = spec_resolve_axis (attr_height el) (attr_viewBox el) 3 (Fin 297) \<rparr>"
    by (rule getSvgDimensionsInMM_axes)
  show "getSvgDimensionsInMM \<lparr> attr_width = None, attr_height = None, attr_viewBox = None \<rparr> =
     \<lparr> dim_w = Fin 210, dim_h = Fin 297 \<rparr>"
    by (simp add: getSvgDimensionsInMM_def parseUnit_def or_default_def)
qed

text \<open>
  A missing width falls back to the \<open>viewBox\<close> while the declared height of the same element
  is kept.
\<close>

theorem getSvgDimensionsInMM_chain_witness:
  "getSvgDimensionsInMM
     \<lparr> attr_width = None, attr_height = Some ''1in'', attr_viewBox = Some ''0 0 96 48'' \<rparr> =
     \<lparr> dim_w = Fin 25.4, dim_h = Fin 25.4 \<rparr>"
proof -
  have p: "parseUnit None = None" "parseUnit (Some ''1in'') = Some (Fin 25.4)"
    by (simp_all add: parseUnit_def parse_defs num_defs)
  have v: "split_numbers ''0 0 96 48'' = [Fin 0, Fin 0, Fin 96, Fin 48]"
    by (simp add: split_numbers_def is_sep_def parse_defs num_defs)
  show ?thesis
    using getSvgDimensionsInMM_chain
      [of "\<lparr> attr_width = None, attr_height = Some ''1in'', attr_viewBox = Some ''0 0 96 48'' \<rparr>"]
    by (simp add: spec_resolve_axis_def usable_def viewBox_extent_def p v PX_TO_MM_def num_defs)
qed

subsection \<open>C8: unit parsing\<close>

text \<open>
  Claim C8, as the code has it. For a non-empty string \<open>parseUnit\<close> returns the value
  \<open>parseFloat\<close> reads from the lower-cased string times the factor of its suffix (\<open>mm\<close> 1,
  \<open>cm\<close> 10, \<open>in\<close> 25.4, \<open>pt\<close> 25.4/72, \<open>pc\<close> 25.4/6, anything else 25.4/96); \<open>null\<close> and the
  empty string give \<open>null\<close>; a string from which no number can be read gives \<open>NaN\<close>.
\<close>

theorem parseUnit_factor:
  "(v \<noteq> [] \<longrightarrow>
      parseUnit (Some v) =
        Some (js_mul (parseFloat (toLowerCase v)) (spec_unit_factor (toLowerCase v)))) \<and>
   (v \<noteq> [] \<and> parseFloat (toLowerCase v) = NaN \<longrightarrow> parseUnit (Some v) = Some NaN) \<and>
   parseUnit None = None \<and> parseUnit (Some []) = None"
proof -
  have 1: "parseUnit (Some v) =
      Some (js_mul (parseFloat (toLowerCase v)) (spec_unit_factor (toLowerCase v)))"
    if "v \<noteq> []"
    using that by (simp add: parseUnit_def spec_unit_factor_def Let_def js_mul_one PX_TO_MM_def)
  have n: "js_mul NaN x = NaN" for x by (simp add: js_mul_def)
  have 2: "parseUnit None = None" "parseUnit (Some []) = None"
    by (simp_all add: parseUnit_def)
  show ?thesis by (simp add: 1 2 n)
qed

text \<open>The examples of the specification, and a unit without a number.\<close>

theorem parseUnit_factor_witness:
  "parseUnit (Some ''10cm'') = Some (Fin 100) \<and> parseUnit (Some ''1in'') = Some (Fin 25.4) \<and>
   parseUnit (Some ''96'') = Some (Fin 25.4) \<and>
   parseFloat (toLowerCase ''px'') = NaN \<and> parseUnit (Some ''px'') = Some NaN"
proof -
  have e: "''10cm'' \<noteq> []" "''1in'' \<noteq> []" "''96'' \<noteq> []" "''px'' \<noteq> []" by simp_all
  have n: "parseFloat (toLowerCase ''px'') = NaN" by (simp add: parse_defs num_defs)
  show ?thesis
    using parseUnit_factor [of "''10cm''"] parseUnit_factor [of "''1in''"]
      parseUnit_factor [of "''96''"] parseUnit_factor [of "''px''"] n
    by (simp add: e spec_unit_factor_def parse_defs num_defs)
qed

text \<open>
  The claim says that an unparseable input yields \<open>null\<close>. The string \<open>abc\<close> yields \<open>NaN\<close>,
  not \<open>null\<close>.
\<close>

theorem parseUnit_unparseable_counterexample:
  "parseUnit (Some ''abc'') = Some NaN \<and> parseUnit (Some ''abc'') \<noteq> None"
  by (simp add: parseUnit_def parse_defs num_defs PX_TO_MM_def)

subsection \<open>C9: the progress callback\<close>




subsection \<open>C10: resolved dimensions are never zero or NaN\<close>

text \<open>
  Claim C10. Neither dimension returned by \<open>getSvgDimensionsInMM\<close> is \<open>NaN\<close> or a zero; an
  axis whose attribute is missing or parses to zero or \<open>NaN\<close> and whose \<open>viewBox\<close> fallback
  is missing, zero or \<open>NaN\<close> gets the default, 210 or 297.
\<close>

theorem getSvgDimensionsInMM_nonzero:
  "dim_w (getSvgDimensionsInMM el) \<noteq> NaN \<and> dim_w (getSvgDimensionsInMM el) \<noteq> Fin 0 \<and>
   dim_w (getSvgDimensionsInMM el) \<noteq> NZero \<and>
   dim_h (getSvgDimensionsInMM el) \<noteq> NaN \<and> dim_h (getSvgDimensionsInMM el) \<noteq> Fin 0 \<and>
   dim_h (getSvgDimensionsInMM el) \<noteq> NZero \<and>
   (falsy (parseUnit (attr_width el)) \<and> falsy (viewBox_extent (attr_viewBox el) 2) \<longrightarrow>
      dim_w (getSvgDimensionsInMM el) = Fin 210) \<and>
   (falsy (parseUnit (attr_height el)) \<and> falsy (viewBox_extent (attr_viewBox el) 3) \<longrightarrow>
      dim_h (getSvgDimensionsInMM el) = Fin 297)"
proof -
  have t: "truthy (Fin 210)" "truthy (Fin 297)" by (simp_all add: truthy_iff)
  have "truthy (dim_w (getSvgDimensionsInMM el))" "truthy (dim_h (getSvgDimensionsInMM el))"
    by (simp_all add: getSvgDimensionsInMM_axes spec_resolve_axis_truthy t)
  then show ?thesis
    by (simp add: truthy_iff) (simp add: getSvgDimensionsInMM_axes spec_resolve_axis_default)
qed

text \<open>
  A width of \<open>0mm\<close>, a height that is not a number and a \<open>viewBox\<close> of zero extent: both axes
  fall through to the defaults.
\<close>

theorem getSvgDimensionsInMM_nonzero_witness:
  "falsy (parseUnit (Some ''0mm'')) \<and> falsy (parseUnit (Some ''abc'')) \<and>
   falsy (viewBox_extent (Some ''0 0 0 0'') 2) \<and> falsy (viewBox_extent (Some ''0 0 0 0'') 3) \<and>
   dim_w (getSvgDimensionsInMM
     \<lparr> attr_width = Some ''0mm'', attr_height = Some ''abc'', attr_viewBox = Some ''0 0 0 0'' \<rparr>)
     = Fin 210 \<and>
   dim_h (getSvgDimensionsInMM
     \<lparr> attr_width = Some ''0mm'', attr_height = Some ''abc'', attr_viewBox = Some ''0 0 0 0'' \<rparr>)
     = Fin 297"
proof -
  have p: "falsy (parseUnit (Some ''0mm''))" "falsy (parseUnit (Some ''abc''))"
    by (simp_all add: parseUnit_def parse_defs num_defs PX_TO_MM_def)
  have v: "split_numbers ''0 0 0 0'' = [Fin 0, Fin 0, Fin 0, Fin 0]"
    by (simp add: split_numbers_def is_sep_def parse_defs num_defs)
  have q: "falsy (viewBox_extent (Some ''0 0 0 0'') 2)" "falsy (viewBox_extent (Some ''0 0 0 0'') 3)"
    by (simp_all add: viewBox_extent_def v PX_TO_MM_def num_defs)
  show ?thesis
    using getSvgDimensionsInMM_nonzero
      [of "\<lparr> attr_width = Some ''0mm'', attr_height = Some ''abc'',
             attr_viewBox = Some ''0 0 0 0'' \<rparr>"] p q
    by simp
qed

end
